theory Spec2Isabelle
  imports Main "HOL-Library.Word"
begin

section \<open>The Nextcloud counter probe (check-nextcloud-counters.go)\<close>

text \<open>
  The program is one Go file: \<open>main\<close> validates the arguments, fetches the server-info
  document over HTTPS, picks one counter out of it and reports it in the Nagios way, by
  printing one line and leaving the process with an exit code. Everything the program
  takes from outside its own file (the HTTP client, the table of reason phrases, the
  JSON decoder, the clock) is a field of the record \<open>env\<close>; everything it does to the
  outside (standard output, the standard logger, requests sent) is a field of \<open>world\<close>.
\<close>

subsection \<open>Integers and their \<open>%d\<close> rendering\<close>

text \<open>
  \<open>int64\<close> is a 64-bit word read in two's complement; Go's \<open>int\<close> is taken at its
  64-bit width, so that \<open>int64(x)\<close> is the identity. Comparisons in the source are
  signed: \<open><s\<close> and \<open>\<le>s\<close>.
\<close>

type_synonym int64 = "64 word"
type_synonym go_int = "64 word"

definition digit :: "nat \<Rightarrow> char" where
  "digit n = ''0123456789'' ! (n mod 10)"

fun decimal :: "nat \<Rightarrow> string" where
  "decimal n = (if n < 10 then [digit n] else decimal (n div 10) @ [digit (n mod 10)])"

declare decimal.simps [simp del]

definition fmt_d :: "int \<Rightarrow> string" where
  "fmt_d i = (if i < 0 then CHR ''-'' # decimal (nat (- i)) else decimal (nat i))"

definition nl :: string where
  "nl = [CHR 0x0A]"

subsection \<open>Configuration: the flags (lines 16--24)\<close>

record config =
  hostname :: string
  uri :: string
  username :: string
  password :: string
  counter :: string
  critical :: int64
  warning :: int64
  debug :: bool
  perfdata :: bool

definition default_flags :: config where
  "default_flags =
     \<lparr>hostname = '''',
      uri = ''/ocs/v2.php/apps/serverinfo/api/v1/info'',
      username = '''',
      password = '''',
      counter = '''',
      critical = 0,
      warning = 0,
      debug = False,
      perfdata = False\<rparr>"

text \<open>
  \<open>flag.Parse\<close> starts from the defaults and stores each flag given on the command
  line, in order, a later occurrence replacing an earlier one. \<open>parse_flags\<close> is the
  configuration after a command line made of well-formed flags only, each with its value
  already read; \<open>flag_Parse\<close> below is \<open>flag.Parse\<close> on any command line, with the
  exits of the flag library.
\<close>

datatype flag =
  Hostname string | Uri string | Username string | Password string | Counter string
  | Critical int64 | Warning int64 | Debug bool | Perfdata bool

fun set_flag :: "config \<Rightarrow> flag \<Rightarrow> config" where
  "set_flag c (Hostname s) = c\<lparr>hostname := s\<rparr>"
| "set_flag c (Uri s) = c\<lparr>uri := s\<rparr>"
| "set_flag c (Username s) = c\<lparr>username := s\<rparr>"
| "set_flag c (Password s) = c\<lparr>password := s\<rparr>"
| "set_flag c (Counter s) = c\<lparr>counter := s\<rparr>"
| "set_flag c (Critical v) = c\<lparr>critical := v\<rparr>"
| "set_flag c (Warning v) = c\<lparr>warning := v\<rparr>"
| "set_flag c (Debug b) = c\<lparr>debug := b\<rparr>"
| "set_flag c (Perfdata b) = c\<lparr>perfdata := b\<rparr>"

definition parse_flags :: "flag list \<Rightarrow> config" where
  "parse_flags args = foldl set_flag default_flags args"

fun is_threshold :: "flag \<Rightarrow> bool" where
  "is_threshold (Critical v) = True"
| "is_threshold (Warning v) = True"
| "is_threshold f = False"

subsection \<open>The outside: requests, responses, library functions\<close>

record request =
  Method :: string
  URL :: string
  basic_auth :: "(string \<times> string) option"

text \<open>
  A response as the program reads it: \<open>resp.StatusCode\<close>, \<open>resp.Status\<close>, the
  rendering of \<open>resp.Header\<close> by \<open>pretty.Formatter\<close>, and what \<open>ioutil.ReadAll\<close>
  gives on the body (\<open>Inl\<close> its error, \<open>Inr\<close> the bytes).
\<close>

record response =
  StatusCode :: go_int
  Status :: string
  HeaderPretty :: string
  Body :: "string + string"

text \<open>
  The struct \<open>NcPerfData\<close>, restricted to the four fields the program reads; no other
  field of the decoded document reaches any output.
\<close>

record NcPerfData =
  NumUpdatesAvailable :: go_int
  Freespace :: int64
  NumShares :: go_int
  Last5Minutes :: go_int

text \<open>\<open>var m NcPerfData\<close>: every field starts at its zero value.\<close>

definition zero_NcPerfData :: NcPerfData where
  "zero_NcPerfData =
     \<lparr>NumUpdatesAvailable = 0, Freespace = 0, NumShares = 0, Last5Minutes = 0\<rparr>"

text \<open>
  The library and the network, as parameters:
  \<^item> \<open>NewRequest_err method url\<close>: the error of \<open>http.NewRequest\<close>, if any;
  \<^item> \<open>client_Do req\<close>: the error or the response of \<open>client.Do\<close>;
  \<^item> \<open>StatusText code\<close>: \<open>http.StatusText\<close>;
  \<^item> \<open>Unmarshal b m\<close>: the struct \<open>m\<close> after \<open>json.Unmarshal(b, &m)\<close> (the
    program drops the error it returns);
  \<^item> \<open>runtime\<close>: the \<open>%s\<close> rendering of the duration measured around the fetch.
\<close>

record env =
  NewRequest_err :: "string \<Rightarrow> string \<Rightarrow> string option"
  client_Do :: "request \<Rightarrow> string + response"
  StatusText :: "go_int \<Rightarrow> string"
  Unmarshal :: "string \<Rightarrow> NcPerfData \<Rightarrow> NcPerfData"
  runtime :: string

text \<open>
  What the process has done so far: the bytes written to standard output, the messages
  handed to \<open>log.Fatal\<close> (the logger writes them to standard error behind a timestamp),
  and the requests passed to \<open>client.Do\<close>, oldest first.
\<close>

record world =
  stdout :: string
  logged :: "string list"
  requests :: "request list"

definition world0 :: world where
  "world0 = \<lparr>stdout = [], logged = [], requests = []\<rparr>"

definition Printf :: "string \<Rightarrow> world \<Rightarrow> world" where
  "Printf s w = w\<lparr>stdout := stdout w @ s\<rparr>"

text \<open>\<open>log.Fatal(err)\<close>: log the error, then \<open>os.Exit(1)\<close>.\<close>

definition log_Fatal :: "string \<Rightarrow> world \<Rightarrow> world \<times> int" where
  "log_Fatal e w = (w\<lparr>logged := logged w @ [e]\<rparr>, 1)"

subsection \<open>The program\<close>

text \<open>
  A function that can end the process returns the world and \<open>Inl\<close> the exit code, or
  \<open>Inr\<close> its value when it returns to its caller. \<open>nagiosResult\<close> calls \<open>os.Exit\<close>
  in each of its four branches, so it has an exit code only.
\<close>

definition debugprint :: "config \<Rightarrow> string \<Rightarrow> world \<Rightarrow> world" where
  "debugprint cfg msg w = (if debug cfg then Printf (''DEBUG: '' @ msg @ nl) w else w)"

definition nagiosResult :: "int \<Rightarrow> string \<Rightarrow> world \<Rightarrow> world \<times> int" where
  "nagiosResult ret message w =
     (if ret = 0 then (Printf (''OK: '' @ message @ nl) w, ret)
      else if ret = 1 then (Printf (''WARNING: '' @ message @ '' '' @ nl) w, ret)
      else if ret = 2 then (Printf (''CRITICAL: '' @ message @ nl) w, ret)
      else (Printf (''UNKNOWN: '' @ message @ nl) w, 3))"

definition allowedCounters :: "string list" where
  "allowedCounters = [''AppUdatesAvailable'', ''FreeSpace'', ''NumShares'', ''ActiveUsers5Min'']"

text \<open>The loop of \<open>checkArguments\<close> over \<open>allowedCounters\<close>: true when it returns early.\<close>

fun counter_found :: "string list \<Rightarrow> string \<Rightarrow> bool" where
  "counter_found [] c = False"
| "counter_found (a # as) c = (if a = c then True else counter_found as c)"

definition checkArguments :: "string \<Rightarrow> int64 \<Rightarrow> int64 \<Rightarrow> world \<Rightarrow> world \<times> (int + unit)" where
  "checkArguments c warn crit w =
     (if crit \<le>s warn then
        (case nagiosResult 3 ''Warning must be smaller than Critical'' w of (w', code) \<Rightarrow> (w', Inl code))
      else if counter_found allowedCounters c then (w, Inr ())
      else (case nagiosResult 3 ''Unknown Counter'' w of (w', code) \<Rightarrow> (w', Inl code)))"

text \<open>The \<open>switch counter\<close> at the end of \<open>fetchPerformanceInfo\<close> (lines 137--148).\<close>

definition select_counter :: "string \<Rightarrow> NcPerfData \<Rightarrow> int64" where
  "select_counter c m =
     (if c = ''AppUdatesAvailable'' then NumUpdatesAvailable m
      else if c = ''FreeSpace'' then Freespace m
      else if c = ''NumShares'' then NumShares m
      else if c = ''ActiveUsers5Min'' then Last5Minutes m
      else - 1)"

definition perfURL :: "config \<Rightarrow> string" where
  "perfURL cfg = ''https://'' @ hostname cfg @ ''/'' @ uri cfg @ ''?format=json''"

definition fetchPerformanceInfo :: "env \<Rightarrow> config \<Rightarrow> string \<Rightarrow> world \<Rightarrow> world \<times> (int + int64)" where
  "fetchPerformanceInfo e cfg c w =
     (let w1 = debugprint cfg (''initiating GET request to '' @ perfURL cfg) w in
      case NewRequest_err e ''GET'' (perfURL cfg) of
        Some err \<Rightarrow> (case log_Fatal err w1 of (w', code) \<Rightarrow> (w', Inl code))
      | None \<Rightarrow>
         (let req = \<lparr>Method = ''GET'', URL = perfURL cfg,
                     basic_auth = Some (username cfg, password cfg)\<rparr>;
              w2 = w1\<lparr>requests := requests w1 @ [req]\<rparr>
          in case client_Do e req of
               Inl err \<Rightarrow> (case log_Fatal err w2 of (w', code) \<Rightarrow> (w', Inl code))
             | Inr resp \<Rightarrow>
                (if 299 <s StatusCode resp then
                   (case nagiosResult 3
                           (''Http request returned '' @ fmt_d (sint (StatusCode resp))
                              @ '' ('' @ StatusText e (StatusCode resp) @ '')'') w2
                    of (w', code) \<Rightarrow> (w', Inl code))
                 else
                   (let w3 = debugprint cfg (''Status '' @ Status resp @ '':'') w2;
                        w4 = debugprint cfg (HeaderPretty resp) w3
                    in case Body resp of
                         Inl err \<Rightarrow> (case log_Fatal err w4 of (w', code) \<Rightarrow> (w', Inl code))
                       | Inr b \<Rightarrow>
                          (let w5 = debugprint cfg b w4;
                               m = Unmarshal e b zero_NcPerfData
                           in (w5, Inr (select_counter c m)))))))"

text \<open>Lines 192--195 of \<open>main\<close>: the message, with the perfdata suffix when asked for.\<close>

definition result_text :: "env \<Rightarrow> config \<Rightarrow> int64 \<Rightarrow> string" where
  "result_text e cfg perfInfo =
     (let result = counter cfg @ '': '' @ fmt_d (sint perfInfo) in
      if perfdata cfg
      then result @ '' | '' @ counter cfg @ ''='' @ fmt_d (sint perfInfo) @ '',runtime='' @ runtime e
      else result)"

text \<open>
  \<open>main\<close> after \<open>flag.Parse\<close>. Each \<open>nagiosResult\<close> ends the process, so the four
  \<open>if\<close>s of lines 196--207 are a chain; falling off the end of \<open>main\<close> is exit code 0
  with nothing more printed.
\<close>

definition main :: "env \<Rightarrow> config \<Rightarrow> world \<Rightarrow> world \<times> int" where
  "main e cfg w =
     (case checkArguments (counter cfg) (warning cfg) (critical cfg) w of
        (w1, Inl code) \<Rightarrow> (w1, code)
      | (w1, Inr u) \<Rightarrow>
         (case fetchPerformanceInfo e cfg (counter cfg) w1 of
            (w2, Inl code) \<Rightarrow> (w2, code)
          | (w2, Inr perfInfo) \<Rightarrow>
             (let result = result_text e cfg perfInfo in
              if perfInfo = - 1 then nagiosResult 3 (''Unknown value for '' @ counter cfg) w2
              else if perfInfo <s warning cfg then nagiosResult 0 result w2
              else if warning cfg \<le>s perfInfo then nagiosResult 1 result w2
              else if critical cfg \<le>s perfInfo then nagiosResult 2 result w2
              else (w2, 0))))"

text \<open>
  Line 185, \<open>flag.Parse()\<close>, comes before all of that and can end the process itself. The
  flag library, not this file, reads the command line, from left to right; a command line is
  given here as the list of what the library finds in it:
  \<^item> \<open>Given f\<close>: a flag this program defines, with a value the library could read;
  \<^item> \<open>Help\<close>: \<open>-h\<close> or \<open>-help\<close>, which this program does not define;
  \<^item> \<open>Invalid\<close>: a flag this program does not define, or a value that cannot be read
    (\<open>-warning ten\<close>, \<open>-debug=maybe\<close>, a flag without its value);
  \<^item> \<open>Positional\<close>: the first element that is no flag; parsing stops there and what
    follows is ignored.
  The command line is parsed with \<open>ExitOnError\<close>: \<open>Help\<close> ends the process with exit code
  0 and \<open>Invalid\<close> with exit code 2, both after a usage text on standard error and with
  nothing written to standard output.
\<close>

datatype arg = Given flag | Help | Invalid | Positional

fun flag_Parse :: "config \<Rightarrow> arg list \<Rightarrow> int + config" where
  "flag_Parse c [] = Inr c"
| "flag_Parse c (Given f # as) = flag_Parse (set_flag c f) as"
| "flag_Parse c (Help # as) = Inl 0"
| "flag_Parse c (Invalid # as) = Inl 2"
| "flag_Parse c (Positional # as) = Inr c"

fun sets_threshold :: "arg \<Rightarrow> bool" where
  "sets_threshold (Given f) = is_threshold f"
| "sets_threshold a = False"

text \<open>
  One invocation of the program, from its command line: the whole of the Go function
  \<open>main\<close>, \<open>flag.Parse\<close> included.
\<close>

definition invocation :: "env \<Rightarrow> arg list \<Rightarrow> world \<Rightarrow> world \<times> int" where
  "invocation e args w =
     (case flag_Parse default_flags args of
        Inl code \<Rightarrow> (w, code)
      | Inr cfg \<Rightarrow> main e cfg w)"

subsection \<open>A concrete server, for running the program\<close>

text \<open>
  Four response bodies and the struct \<open>json.Unmarshal\<close> leaves for each of them; any
  other body is treated as one that populates nothing. \<open>run_Unmarshal\<close> stands for the
  decoder on these bodies only and is used to run the program on concrete inputs, never
  in a general statement.
\<close>

definition body_updates5 :: string where
  \<open>body_updates5 = ''{"ocs":{"data":{"nextcloud":{"system":{"apps":{"num_updates_available":5}}}}}}''\<close>

definition body_free50 :: string where
  \<open>body_free50 = ''{"ocs":{"data":{"nextcloud":{"system":{"freespace":50}}}}}''\<close>

definition body_free_minus1 :: string where
  \<open>body_free_minus1 = ''{"ocs":{"data":{"nextcloud":{"system":{"freespace":-1}}}}}''\<close>

definition body_no_fields :: string where
  \<open>body_no_fields = ''{"ocs":{"data":{}}}''\<close>

definition run_Unmarshal :: "string \<Rightarrow> NcPerfData \<Rightarrow> NcPerfData" where
  "run_Unmarshal b m =
     (if b = body_updates5 then m\<lparr>NumUpdatesAvailable := 5\<rparr>
      else if b = body_free50 then m\<lparr>Freespace := 50\<rparr>
      else if b = body_free_minus1 then m\<lparr>Freespace := - 1\<rparr>
      else m)"

definition run_StatusText :: "go_int \<Rightarrow> string" where
  "run_StatusText code =
     (if code = 200 then ''OK''
      else if code = 401 then ''Unauthorized''
      else if code = 404 then ''Not Found''
      else [])"

definition run_env :: "(request \<Rightarrow> string + response) \<Rightarrow> env" where
  "run_env server =
     \<lparr>NewRequest_err = (\<lambda>m u. None),
      client_Do = server,
      StatusText = run_StatusText,
      Unmarshal = run_Unmarshal,
      runtime = ''12.5ms''\<rparr>"

definition serve :: "go_int \<Rightarrow> string \<Rightarrow> string \<Rightarrow> request \<Rightarrow> string + response" where
  "serve code status b req =
     Inr \<lparr>StatusCode = code, Status = status, HeaderPretty = ''http.Header{}'', Body = Inr b\<rparr>"

definition unreachable :: "request \<Rightarrow> string + response" where
  "unreachable req = Inl ''dial tcp: connection refused''"

definition run_flags :: "string \<Rightarrow> int64 \<Rightarrow> int64 \<Rightarrow> config" where
  "run_flags c warn crit =
     parse_flags [Hostname ''cloud.example.org'', Username ''admin'', Password ''secret'',
                  Counter c, Warning warn, Critical crit]"

definition run_args :: "string \<Rightarrow> int64 \<Rightarrow> int64 \<Rightarrow> arg list" where
  "run_args c warn crit =
     [Given (Hostname ''cloud.example.org''), Given (Username ''admin''),
      Given (Password ''secret''), Given (Counter c), Given (Warning warn),
      Given (Critical crit)]"

definition run_request :: request where
  "run_request =
     \<lparr>Method = ''GET'',
      URL = ''https://cloud.example.org//ocs/v2.php/apps/serverinfo/api/v1/info?format=json'',
      basic_auth = Some (''admin'', ''secret'')\<rparr>"

section \<open>Properties\<close>

subsection \<open>Shared facts\<close>

lemma sless_not_sle: "(a::int64) <s b \<Longrightarrow> \<not> b \<le>s a"
  by (simp add: word_sless_alt word_sle_eq)

lemma not_sless_sle: "\<not> (a::int64) <s b \<Longrightarrow> b \<le>s a"
  by (simp add: word_sless_alt word_sle_eq)

lemma sle_trans_sless: "(a::int64) <s b \<Longrightarrow> b \<le>s c \<Longrightarrow> a \<le>s c"
  by (simp add: word_sless_alt word_sle_eq)

lemma sle_300_iff: "(300 \<le>s (c::go_int)) = (299 <s c)"
  by (auto simp: word_sless_alt word_sle_eq)

lemma counter_found_set: "counter_found xs c = (c \<in> set xs)"
  by (induction xs) auto

lemma nagiosResult_0: "nagiosResult 0 msg w = (Printf (''OK: '' @ msg @ nl) w, 0)"
  by (simp add: nagiosResult_def)

lemma nagiosResult_1: "nagiosResult 1 msg w = (Printf (''WARNING: '' @ msg @ '' '' @ nl) w, 1)"
  by (simp add: nagiosResult_def)

lemma nagiosResult_3: "nagiosResult 3 msg w = (Printf (''UNKNOWN: '' @ msg @ nl) w, 3)"
  by (simp add: nagiosResult_def)

lemma checkArguments_pass:
  "a <s b \<Longrightarrow> counter_found allowedCounters c \<Longrightarrow> checkArguments c a b w = (w, Inr ())"
  by (simp add: checkArguments_def sless_not_sle)

lemma checkArguments_order:
  "b \<le>s a \<Longrightarrow>
   checkArguments c a b w =
     (Printf (''UNKNOWN: Warning must be smaller than Critical'' @ nl) w, Inl 3)"
  by (simp add: checkArguments_def nagiosResult_3)

lemma checkArguments_unknown:
  "a <s b \<Longrightarrow> \<not> counter_found allowedCounters c \<Longrightarrow>
   checkArguments c a b w = (Printf (''UNKNOWN: Unknown Counter'' @ nl) w, Inl 3)"
  by (simp add: checkArguments_def nagiosResult_3 sless_not_sle)

lemma main_rejects_order:
  "critical cfg \<le>s warning cfg \<Longrightarrow>
   main e cfg w = (Printf (''UNKNOWN: Warning must be smaller than Critical'' @ nl) w, 3)"
  by (simp add: main_def checkArguments_order)

lemma main_rejects_counter:
  "warning cfg <s critical cfg \<Longrightarrow> \<not> counter_found allowedCounters (counter cfg) \<Longrightarrow>
   main e cfg w = (Printf (''UNKNOWN: Unknown Counter'' @ nl) w, 3)"
  by (simp add: main_def checkArguments_unknown)

lemma main_after_fetch:
  assumes "warning cfg <s critical cfg"
    and "counter_found allowedCounters (counter cfg)"
    and "fetchPerformanceInfo e cfg (counter cfg) w = (w2, Inr v)"
  shows "main e cfg w =
           (if v = - 1 then nagiosResult 3 (''Unknown value for '' @ counter cfg) w2
            else if v <s warning cfg then nagiosResult 0 (result_text e cfg v) w2
            else nagiosResult 1 (result_text e cfg v) w2)"
  using assms by (simp add: main_def checkArguments_pass not_sless_sle)

lemma main_after_exit:
  assumes "warning cfg <s critical cfg"
    and "counter_found allowedCounters (counter cfg)"
    and "fetchPerformanceInfo e cfg (counter cfg) w = (w2, Inl code)"
  shows "main e cfg w = (w2, code)"
  using assms by (simp add: main_def checkArguments_pass)

lemma main_exit_not_2: "snd (main e cfg w) \<noteq> 2"
  by (auto simp: main_def checkArguments_def fetchPerformanceInfo_def Let_def nagiosResult_def
      log_Fatal_def not_sless_sle split: prod.splits sum.splits option.splits if_splits)

lemmas run_defs = run_flags_def parse_flags_def default_flags_def run_env_def serve_def
  run_Unmarshal_def run_StatusText_def run_request_def world0_def unreachable_def
  body_updates5_def body_free50_def body_free_minus1_def body_no_fields_def

lemmas prog_defs = main_def checkArguments_def fetchPerformanceInfo_def nagiosResult_def
  allowedCounters_def select_counter_def perfURL_def result_text_def debugprint_def
  Printf_def log_Fatal_def zero_NcPerfData_def nl_def Let_def

lemmas fmt_simps = fmt_d_def decimal.simps digit_def

subsection \<open>Evaluation order of the thresholds\<close>

text \<open>
  C1. Whenever the fetch has returned a value \<open>v\<close> other than the sentinel \<open>-1\<close> and the
  thresholds are ordered (warning below critical, the counter an allowed one, as
  \<open>checkArguments\<close> has checked by then): if \<open>v\<close> is at least the warning threshold, the
  program prints the WARNING line and exits with code 1; this holds in particular for every
  \<open>v\<close> at or above the critical threshold; and the exit code is never 2, the code
  of the CRITICAL branch.
\<close>

theorem warning_shadows_critical:
  assumes "warning cfg <s critical cfg"
    and "counter_found allowedCounters (counter cfg)"
    and "fetchPerformanceInfo e cfg (counter cfg) w = (w2, Inr v)"
    and "v \<noteq> - 1"
  shows "(warning cfg \<le>s v \<longrightarrow>
            main e cfg w = (Printf (''WARNING: '' @ result_text e cfg v @ '' '' @ nl) w2, 1))
         \<and> (critical cfg \<le>s v \<longrightarrow> snd (main e cfg w) = 1)
         \<and> snd (main e cfg w) \<noteq> 2"
proof -
  have m: "main e cfg w =
             (if v <s warning cfg then nagiosResult 0 (result_text e cfg v) w2
              else nagiosResult 1 (result_text e cfg v) w2)"
    using main_after_fetch [OF assms(1-3)] assms(4) by simp
  have warn: "main e cfg w = (Printf (''WARNING: '' @ result_text e cfg v @ '' '' @ nl) w2, 1)"
    if "warning cfg \<le>s v"
    using that m by (simp add: nagiosResult_1 word_sless_alt word_sle_eq)
  have "warning cfg \<le>s v" if "critical cfg \<le>s v"
    using assms(1) that by (rule sle_trans_sless)
  with warn have "critical cfg \<le>s v \<longrightarrow> snd (main e cfg w) = 1" by simp
  moreover have "snd (main e cfg w) \<noteq> 2"
    using m by (simp add: nagiosResult_0 nagiosResult_1)
  ultimately show ?thesis using warn by blast
qed

theorem warning_shadows_critical_witness:
  "warning (run_flags ''FreeSpace'' 10 20) <s critical (run_flags ''FreeSpace'' 10 20)
   \<and> (50::int64) \<noteq> - 1
   \<and> critical (run_flags ''FreeSpace'' 10 20) \<le>s 50
   \<and> main (run_env (serve 200 ''200 OK'' body_free50)) (run_flags ''FreeSpace'' 10 20) world0
       = (\<lparr>stdout = ''WARNING: FreeSpace: 50 '' @ nl, logged = [], requests = [run_request]\<rparr>, 1)
   \<and> snd (main (run_env (serve 200 ''200 OK'' body_free50)) (run_flags ''FreeSpace'' 10 20) world0) \<noteq> 2"
proof -
  let ?cfg = "run_flags ''FreeSpace'' 10 20"
  let ?e = "run_env (serve 200 ''200 OK'' body_free50)"
  let ?w2 = "\<lparr>stdout = [], logged = [], requests = [run_request]\<rparr>"
  have h1: "warning ?cfg <s critical ?cfg" by (simp add: run_defs)
  have h2: "counter_found allowedCounters (counter ?cfg)"
    by (simp add: run_defs allowedCounters_def)
  have h3: "fetchPerformanceInfo ?e ?cfg (counter ?cfg) world0 = (?w2, Inr 50)"
    by (simp add: run_defs prog_defs word_sless_alt)
  have h4: "(50::int64) \<noteq> - 1" by simp
  have h5: "critical ?cfg \<le>s 50" "warning ?cfg \<le>s 50"
    by (simp_all add: run_defs word_sle_eq)
  have r: "result_text ?e ?cfg 50 = ''FreeSpace: 50''"
    by (simp add: result_text_def run_defs fmt_simps)
  from warning_shadows_critical [OF h1 h2 h3 h4] h5 r
  have "main ?e ?cfg world0
          = (\<lparr>stdout = ''WARNING: FreeSpace: 50 '' @ nl, logged = [], requests = [run_request]\<rparr>, 1)
        \<and> snd (main ?e ?cfg world0) \<noteq> 2"
    by (simp add: Printf_def)
  with h1 h4 h5 show ?thesis by simp
qed

subsection \<open>Argument validation\<close>

text \<open>
  C2. For every pair of thresholds with warning at or above critical, whatever the other
  flags, the network and the starting state: the program prints
  \<open>UNKNOWN: Warning must be smaller than Critical\<close>, exits with code 3, and has passed
  no request to the HTTP client and nothing to the logger: the check comes before any I/O.
\<close>

theorem bad_thresholds_unknown_without_io:
  assumes "critical cfg \<le>s warning cfg"
  shows "main e cfg w = (Printf (''UNKNOWN: Warning must be smaller than Critical'' @ nl) w, 3)
         \<and> requests (fst (main e cfg w)) = requests w
         \<and> logged (fst (main e cfg w)) = logged w"
  using assms by (simp add: main_rejects_order Printf_def)

theorem bad_thresholds_unknown_without_io_witness:
  "critical (run_flags ''FreeSpace'' 20 20) \<le>s warning (run_flags ''FreeSpace'' 20 20)
   \<and> main (run_env (serve 200 ''200 OK'' body_free50)) (run_flags ''FreeSpace'' 20 20) world0
       = (\<lparr>stdout = ''UNKNOWN: Warning must be smaller than Critical'' @ nl,
           logged = [], requests = []\<rparr>, 3)"
proof -
  have h: "critical (run_flags ''FreeSpace'' 20 20) \<le>s warning (run_flags ''FreeSpace'' 20 20)"
    by (simp add: run_defs word_sle_eq)
  from bad_thresholds_unknown_without_io
         [OF h, of "run_env (serve 200 ''200 OK'' body_free50)" world0] h
  show ?thesis by (simp add: Printf_def world0_def)
qed

text \<open>
  C3, as the specification names the counters. \<open>free-space\<close> is one of the names the
  specification lists, the thresholds are ordered, and the validator rejects it as an
  unknown counter; \<open>FreeSpace\<close> is outside the specification's list, and the validator
  lets it pass.
\<close>

theorem spec_counter_names_counterexample:
  "''free-space'' \<in> {''update-count'', ''free-space'', ''share-count'', ''active-users-5min''}
   \<and> (1::int64) <s 2
   \<and> checkArguments ''free-space'' 1 2 world0
        = (\<lparr>stdout = ''UNKNOWN: Unknown Counter'' @ nl, logged = [], requests = []\<rparr>, Inl 3)
   \<and> ''FreeSpace'' \<notin> {''update-count'', ''free-space'', ''share-count'', ''active-users-5min''}
   \<and> checkArguments ''FreeSpace'' 1 2 world0 = (world0, Inr ())"
  by (simp add: checkArguments_def allowedCounters_def nagiosResult_def Printf_def world0_def
      word_sle_eq word_sless_alt)

text \<open>
  C3, with the names the program knows. For every counter name outside
  \<open>AppUdatesAvailable\<close>, \<open>FreeSpace\<close>, \<open>NumShares\<close>, \<open>ActiveUsers5Min\<close> the program
  prints an UNKNOWN line and exits with code 3 without having passed a request to the HTTP
  client; for every name among the four and ordered thresholds, \<open>checkArguments\<close>
  returns to \<open>main\<close> with nothing printed, and \<open>main\<close> goes on with the fetch and the
  evaluation of what it returns.
\<close>

theorem counter_names_validated:
  "(counter cfg \<notin> {''AppUdatesAvailable'', ''FreeSpace'', ''NumShares'', ''ActiveUsers5Min''} \<longrightarrow>
      main e cfg w =
        (Printf (''UNKNOWN: '' @ (if critical cfg \<le>s warning cfg
                                  then ''Warning must be smaller than Critical''
                                  else ''Unknown Counter'') @ nl) w, 3)
      \<and> requests (fst (main e cfg w)) = requests w)
   \<and> (counter cfg \<in> {''AppUdatesAvailable'', ''FreeSpace'', ''NumShares'', ''ActiveUsers5Min''}
        \<and> warning cfg <s critical cfg \<longrightarrow>
      checkArguments (counter cfg) (warning cfg) (critical cfg) w = (w, Inr ())
      \<and> main e cfg w =
          (case fetchPerformanceInfo e cfg (counter cfg) w of
             (w2, Inl code) \<Rightarrow> (w2, code)
           | (w2, Inr v) \<Rightarrow>
               if v = - 1 then nagiosResult 3 (''Unknown value for '' @ counter cfg) w2
               else if v <s warning cfg then nagiosResult 0 (result_text e cfg v) w2
               else nagiosResult 1 (result_text e cfg v) w2))"
proof (intro conjI impI)
  assume out: "counter cfg \<notin> {''AppUdatesAvailable'', ''FreeSpace'', ''NumShares'', ''ActiveUsers5Min''}"
  then have nf: "\<not> counter_found allowedCounters (counter cfg)"
    by (simp add: counter_found_set allowedCounters_def)
  show m: "main e cfg w =
        (Printf (''UNKNOWN: '' @ (if critical cfg \<le>s warning cfg
                                  then ''Warning must be smaller than Critical''
                                  else ''Unknown Counter'') @ nl) w, 3)"
  proof (cases "critical cfg \<le>s warning cfg")
    case True
    then show ?thesis by (simp add: main_rejects_order)
  next
    case False
    then have "warning cfg <s critical cfg" by (simp add: word_sless_alt word_sle_eq)
    with nf False show ?thesis by (simp add: main_rejects_counter)
  qed
  show "requests (fst (main e cfg w)) = requests w"
    by (simp add: m Printf_def)
next
  assume a: "counter cfg \<in> {''AppUdatesAvailable'', ''FreeSpace'', ''NumShares'', ''ActiveUsers5Min''}
        \<and> warning cfg <s critical cfg"
  then have f: "counter_found allowedCounters (counter cfg)"
    by (simp add: counter_found_set allowedCounters_def)
  from a f show "checkArguments (counter cfg) (warning cfg) (critical cfg) w = (w, Inr ())"
    by (simp add: checkArguments_pass)
  from a f show "main e cfg w =
          (case fetchPerformanceInfo e cfg (counter cfg) w of
             (w2, Inl code) \<Rightarrow> (w2, code)
           | (w2, Inr v) \<Rightarrow>
               if v = - 1 then nagiosResult 3 (''Unknown value for '' @ counter cfg) w2
               else if v <s warning cfg then nagiosResult 0 (result_text e cfg v) w2
               else nagiosResult 1 (result_text e cfg v) w2)"
    by (auto simp: main_after_fetch main_after_exit split: prod.splits sum.splits)
qed

theorem counter_names_validated_witness:
  "counter (run_flags ''free-space'' 10 20)
       \<notin> {''AppUdatesAvailable'', ''FreeSpace'', ''NumShares'', ''ActiveUsers5Min''}
   \<and> main (run_env (serve 200 ''200 OK'' body_free50)) (run_flags ''free-space'' 10 20) world0
       = (\<lparr>stdout = ''UNKNOWN: Unknown Counter'' @ nl, logged = [], requests = []\<rparr>, 3)
   \<and> counter (run_flags ''NumShares'' 10 20)
       \<in> {''AppUdatesAvailable'', ''FreeSpace'', ''NumShares'', ''ActiveUsers5Min''}
   \<and> warning (run_flags ''NumShares'' 10 20) <s critical (run_flags ''NumShares'' 10 20)
   \<and> checkArguments (counter (run_flags ''NumShares'' 10 20)) (warning (run_flags ''NumShares'' 10 20))
        (critical (run_flags ''NumShares'' 10 20)) world0 = (world0, Inr ())"
proof -
  have h1: "counter (run_flags ''free-space'' 10 20)
       \<notin> {''AppUdatesAvailable'', ''FreeSpace'', ''NumShares'', ''ActiveUsers5Min''}"
    by (simp add: run_defs)
  have h2: "\<not> critical (run_flags ''free-space'' 10 20) \<le>s warning (run_flags ''free-space'' 10 20)"
    by (simp add: run_defs word_sle_eq)
  have h3: "counter (run_flags ''NumShares'' 10 20)
       \<in> {''AppUdatesAvailable'', ''FreeSpace'', ''NumShares'', ''ActiveUsers5Min''}
     \<and> warning (run_flags ''NumShares'' 10 20) <s critical (run_flags ''NumShares'' 10 20)"
    by (simp add: run_defs)
  from counter_names_validated
         [of "run_flags ''free-space'' 10 20" "run_env (serve 200 ''200 OK'' body_free50)" world0]
       h1 h2
  have a: "main (run_env (serve 200 ''200 OK'' body_free50)) (run_flags ''free-space'' 10 20) world0
       = (\<lparr>stdout = ''UNKNOWN: Unknown Counter'' @ nl, logged = [], requests = []\<rparr>, 3)"
    by (simp add: Printf_def world0_def)
  from counter_names_validated
         [of "run_flags ''NumShares'' 10 20" "run_env (serve 200 ''200 OK'' body_free50)" world0] h3
  have b: "checkArguments (counter (run_flags ''NumShares'' 10 20)) (warning (run_flags ''NumShares'' 10 20))
        (critical (run_flags ''NumShares'' 10 20)) world0 = (world0, Inr ())"
    by blast
  from h1 h3 a b show ?thesis by blast
qed

subsection \<open>The fetch\<close>

lemma fetch_http_error:
  assumes "NewRequest_err e ''GET'' (perfURL cfg) = None"
    and "client_Do e \<lparr>Method = ''GET'', URL = perfURL cfg,
                      basic_auth = Some (username cfg, password cfg)\<rparr> = Inr resp"
    and "299 <s StatusCode resp"
  shows "fetchPerformanceInfo e cfg c w =
           (Printf (''UNKNOWN: Http request returned '' @ fmt_d (sint (StatusCode resp))
                      @ '' ('' @ StatusText e (StatusCode resp) @ '')'' @ nl)
              ((debugprint cfg (''initiating GET request to '' @ perfURL cfg) w)
                 \<lparr>requests := requests w @ [\<lparr>Method = ''GET'', URL = perfURL cfg,
                      basic_auth = Some (username cfg, password cfg)\<rparr>]\<rparr>), Inl 3)"
  using assms
  by (simp add: fetchPerformanceInfo_def Let_def nagiosResult_3 debugprint_def Printf_def)

text \<open>
  C4. Once the arguments are accepted and the client has returned a response, a status
  code of 300 or more makes the program print
  \<open>UNKNOWN: Http request returned <code> (<reason phrase>)\<close>, the code in decimal and
  the phrase as \<open>http.StatusText\<close> gives it, after the debug line of the request if any,
  and exit with code 3. The instance below runs a 401 response.
\<close>

theorem http_error_status_unknown:
  assumes "warning cfg <s critical cfg"
    and "counter_found allowedCounters (counter cfg)"
    and "NewRequest_err e ''GET'' (perfURL cfg) = None"
    and "client_Do e \<lparr>Method = ''GET'', URL = perfURL cfg,
                      basic_auth = Some (username cfg, password cfg)\<rparr> = Inr resp"
    and "300 \<le>s StatusCode resp"
  shows "stdout (fst (main e cfg w)) =
           stdout (debugprint cfg (''initiating GET request to '' @ perfURL cfg) w)
             @ ''UNKNOWN: Http request returned '' @ fmt_d (sint (StatusCode resp))
             @ '' ('' @ StatusText e (StatusCode resp) @ '')'' @ nl
         \<and> snd (main e cfg w) = 3"
proof -
  from assms(5) have big: "299 <s StatusCode resp" by (simp add: sle_300_iff)
  note f = fetch_http_error [OF assms(3) assms(4) big, of "counter cfg" w]
  show ?thesis
    by (simp add: main_after_exit [OF assms(1) assms(2) f] Printf_def)
qed

theorem http_error_status_unknown_witness:
  "300 \<le>s (401::go_int)
   \<and> stdout (fst (main (run_env (serve 401 ''401 Unauthorized'' [])) (run_flags ''FreeSpace'' 10 20) world0))
       = ''UNKNOWN: Http request returned 401 (Unauthorized)'' @ nl
   \<and> snd (main (run_env (serve 401 ''401 Unauthorized'' [])) (run_flags ''FreeSpace'' 10 20) world0) = 3"
proof -
  let ?cfg = "run_flags ''FreeSpace'' 10 20"
  let ?e = "run_env (serve 401 ''401 Unauthorized'' [])"
  let ?resp = "\<lparr>StatusCode = 401, Status = ''401 Unauthorized'', HeaderPretty = ''http.Header{}'',
                Body = Inr []\<rparr>"
  have h1: "warning ?cfg <s critical ?cfg" by (simp add: run_defs)
  have h2: "counter_found allowedCounters (counter ?cfg)"
    by (simp add: run_defs allowedCounters_def)
  have h3: "NewRequest_err ?e ''GET'' (perfURL ?cfg) = None" by (simp add: run_defs)
  have h4: "client_Do ?e \<lparr>Method = ''GET'', URL = perfURL ?cfg,
                      basic_auth = Some (username ?cfg, password ?cfg)\<rparr> = Inr ?resp"
    by (simp add: run_defs)
  have h5: "300 \<le>s StatusCode ?resp" by (simp add: word_sle_eq)
  have d: "\<not> debug ?cfg" by (simp add: run_defs)
  have s: "StatusText ?e 401 = ''Unauthorized''" "fmt_d 401 = ''401''"
    by (simp_all add: run_defs fmt_simps)
  from http_error_status_unknown [OF h1 h2 h3 h4 h5, of world0] d s h5
  show ?thesis by (simp add: debugprint_def world0_def)
qed

text \<open>
  C6. The request is meant to go to the host followed by the uri and \<open>?format=json\<close>, with
  basic authentication. The default uri of line 17 starts with a slash and the format string
  of line 109 puts a slash of its own after the host, so on a command line that leaves the
  uri at its default the URL handed to \<open>http.NewRequest\<close> has two slashes after the host:
  for \<open>-hostname cloud.example.org\<close> it is
  \<open>https://cloud.example.org//ocs/v2.php/apps/serverinfo/api/v1/info?format=json\<close>, not
  the host and the uri put side by side. The credentials are the configured ones.
\<close>

theorem default_uri_double_slash:
  "flag_Parse default_flags (run_args ''FreeSpace'' 10 20) = Inr (run_flags ''FreeSpace'' 10 20)
   \<and> uri (run_flags ''FreeSpace'' 10 20) = uri default_flags
   \<and> requests (fst (invocation (run_env (serve 200 ''200 OK'' body_free50))
                       (run_args ''FreeSpace'' 10 20) world0))
     = [\<lparr>Method = ''GET'',
         URL = ''https://cloud.example.org//ocs/v2.php/apps/serverinfo/api/v1/info?format=json'',
         basic_auth = Some (''admin'', ''secret'')\<rparr>]
   \<and> ''https://cloud.example.org//ocs/v2.php/apps/serverinfo/api/v1/info?format=json''
       \<noteq> ''https://'' @ hostname (run_flags ''FreeSpace'' 10 20) @ uri (run_flags ''FreeSpace'' 10 20)
            @ ''?format=json''"
  by (simp add: invocation_def run_args_def run_defs prog_defs word_sless_alt word_sle_eq)

subsection \<open>The default thresholds\<close>

lemma flag_Parse_thresholds:
  "flag_Parse c args = Inr cfg \<Longrightarrow> \<forall>a \<in> set args. \<not> sets_threshold a \<Longrightarrow>
   warning cfg = warning c \<and> critical cfg = critical c"
proof (induction args arbitrary: c)
  case Nil
  then show ?case by simp
next
  case (Cons a as)
  show ?case
  proof (cases a)
    case (Given f)
    with Cons.prems have nt: "\<not> is_threshold f" by simp
    then have keep: "warning (set_flag c f) = warning c \<and> critical (set_flag c f) = critical c"
      by (cases f) simp_all
    from Cons.prems Given have "flag_Parse (set_flag c f) as = Inr cfg" by simp
    moreover from Cons.prems have "\<forall>a \<in> set as. \<not> sets_threshold a" by simp
    ultimately have "warning cfg = warning (set_flag c f) \<and> critical cfg = critical (set_flag c f)"
      by (rule Cons.IH)
    with keep show ?thesis by simp
  next
    case Help
    with Cons.prems show ?thesis by simp
  next
    case Invalid
    with Cons.prems show ?thesis by simp
  next
    case Positional
    with Cons.prems show ?thesis by simp
  qed
qed

lemma flag_Parse_Given:
  "flag_Parse c (map Given fs) = Inr (foldl set_flag c fs)"
  by (induction fs arbitrary: c) simp_all

lemma invocation_parsed:
  "flag_Parse default_flags args = Inr cfg \<Longrightarrow> invocation e args w = main e cfg w"
  by (simp add: invocation_def)

text \<open>
  C10, for every invocation. The command line \<open>-counter FreeSpace -verbose\<close> sets no
  threshold, and \<open>-verbose\<close> is no flag of this program: \<open>flag.Parse\<close> ends the process
  with exit code 2, before \<open>checkArguments\<close>, and no UNKNOWN line is printed.
\<close>

theorem undefined_flag_counterexample:
  "\<not> sets_threshold (Given (Counter ''FreeSpace'')) \<and> \<not> sets_threshold Invalid
   \<and> invocation (run_env (serve 200 ''200 OK'' body_free50))
        [Given (Counter ''FreeSpace''), Invalid] world0
       = (\<lparr>stdout = [], logged = [], requests = []\<rparr>, 2)"
  by (simp add: invocation_def default_flags_def world0_def)

text \<open>
  C10, for the command lines \<open>flag.Parse\<close> accepts. The defaults of \<open>warning\<close> and
  \<open>critical\<close> are both 0. So every accepted command line that sets neither threshold, and
  more generally every accepted command line whose thresholds do not end with warning
  strictly below critical, makes the program print
  \<open>UNKNOWN: Warning must be smaller than Critical\<close> and exit with code 3, with no request
  passed to the client, whatever the other flags are.
\<close>

theorem default_thresholds_rejected:
  "warning default_flags = 0 \<and> critical default_flags = 0
   \<and> (flag_Parse default_flags args = Inr cfg
        \<and> ((\<forall>a \<in> set args. \<not> sets_threshold a) \<or> \<not> warning cfg <s critical cfg) \<longrightarrow>
        invocation e args w
          = (Printf (''UNKNOWN: Warning must be smaller than Critical'' @ nl) w, 3)
        \<and> requests (fst (invocation e args w)) = requests w)"
proof -
  have d: "warning default_flags = 0 \<and> critical default_flags = 0"
    by (simp add: default_flags_def)
  have r: "invocation e args w
          = (Printf (''UNKNOWN: Warning must be smaller than Critical'' @ nl) w, 3)
        \<and> requests (fst (invocation e args w)) = requests w"
    if p: "flag_Parse default_flags args = Inr cfg" and n: "\<not> warning cfg <s critical cfg"
  proof -
    from n have "critical cfg \<le>s warning cfg" by (rule not_sless_sle)
    then show ?thesis by (simp add: invocation_parsed [OF p] main_rejects_order Printf_def)
  qed
  have "\<not> warning cfg <s critical cfg"
    if p: "flag_Parse default_flags args = Inr cfg" and "\<forall>a \<in> set args. \<not> sets_threshold a"
    using flag_Parse_thresholds [OF that] d by (simp add: word_sless_alt)
  with d r show ?thesis by blast
qed

theorem default_thresholds_rejected_witness:
  "flag_Parse default_flags
      [Given (Hostname ''cloud.example.org''), Given (Counter ''FreeSpace''), Given (Perfdata True)]
     = Inr (parse_flags [Hostname ''cloud.example.org'', Counter ''FreeSpace'', Perfdata True])
   \<and> \<not> sets_threshold (Given (Hostname ''cloud.example.org''))
   \<and> \<not> sets_threshold (Given (Counter ''FreeSpace''))
   \<and> \<not> sets_threshold (Given (Perfdata True))
   \<and> invocation (run_env (serve 200 ''200 OK'' body_free50))
        [Given (Hostname ''cloud.example.org''), Given (Counter ''FreeSpace''), Given (Perfdata True)]
        world0
       = (\<lparr>stdout = ''UNKNOWN: Warning must be smaller than Critical'' @ nl, logged = [], requests = []\<rparr>, 3)"
proof -
  let ?args = "[Given (Hostname ''cloud.example.org''), Given (Counter ''FreeSpace''),
                Given (Perfdata True)]"
  let ?cfg = "parse_flags [Hostname ''cloud.example.org'', Counter ''FreeSpace'', Perfdata True]"
  have p: "flag_Parse default_flags ?args = Inr ?cfg" by (simp add: parse_flags_def)
  have h: "\<forall>a \<in> set ?args. \<not> sets_threshold a" by simp
  from default_thresholds_rejected
         [of ?args ?cfg "run_env (serve 200 ''200 OK'' body_free50)" world0] p h
  show ?thesis by (simp add: Printf_def world0_def)
qed

subsection \<open>Extraction\<close>

lemma fetch_returns:
  assumes "NewRequest_err e ''GET'' (perfURL cfg) = None"
    and "client_Do e \<lparr>Method = ''GET'', URL = perfURL cfg,
                      basic_auth = Some (username cfg, password cfg)\<rparr> = Inr resp"
    and "StatusCode resp \<le>s 299"
    and "Body resp = Inr b"
  shows "fetchPerformanceInfo e cfg c w =
           (fst (fetchPerformanceInfo e cfg c w),
            Inr (select_counter c (Unmarshal e b zero_NcPerfData)))"
  using assms by (simp add: fetchPerformanceInfo_def Let_def sless_not_sle word_sless_alt word_sle_eq)

lemma fetch_returns_quiet:
  assumes "NewRequest_err e ''GET'' (perfURL cfg) = None"
    and "client_Do e \<lparr>Method = ''GET'', URL = perfURL cfg,
                      basic_auth = Some (username cfg, password cfg)\<rparr> = Inr resp"
    and "StatusCode resp \<le>s 299"
    and "Body resp = Inr b"
    and "\<not> debug cfg"
  shows "stdout (fst (fetchPerformanceInfo e cfg c w)) = stdout w"
  using assms
  by (simp add: fetchPerformanceInfo_def Let_def debugprint_def word_sless_alt word_sle_eq)

lemma select_counter_zero:
  "counter_found allowedCounters c \<Longrightarrow> select_counter c zero_NcPerfData = 0"
  by (auto simp: counter_found_set allowedCounters_def select_counter_def zero_NcPerfData_def)

text \<open>
  C5. The struct starts at its zero value and the program ignores the decoder's error. So
  for every body (valid JSON without the field, or anything the decoder cannot read) after
  which the decoder has left the requested field as it was, the fetch of a validated
  counter returns 0, not the sentinel \<open>-1\<close>, and \<open>main\<close> treats it as the value 0: OK
  with the message for 0 when the warning threshold is above 0, WARNING otherwise.
\<close>

theorem unpopulated_field_reads_zero:
  assumes "warning cfg <s critical cfg"
    and "counter_found allowedCounters (counter cfg)"
    and "NewRequest_err e ''GET'' (perfURL cfg) = None"
    and "client_Do e \<lparr>Method = ''GET'', URL = perfURL cfg,
                      basic_auth = Some (username cfg, password cfg)\<rparr> = Inr resp"
    and "StatusCode resp \<le>s 299"
    and "Body resp = Inr b"
    and "select_counter (counter cfg) (Unmarshal e b zero_NcPerfData)
           = select_counter (counter cfg) zero_NcPerfData"
  shows "snd (fetchPerformanceInfo e cfg (counter cfg) w) = Inr 0
         \<and> snd (fetchPerformanceInfo e cfg (counter cfg) w) \<noteq> Inr (- 1)
         \<and> main e cfg w =
             (if 0 <s warning cfg
              then (Printf (''OK: '' @ result_text e cfg 0 @ nl)
                      (fst (fetchPerformanceInfo e cfg (counter cfg) w)), 0)
              else (Printf (''WARNING: '' @ result_text e cfg 0 @ '' '' @ nl)
                      (fst (fetchPerformanceInfo e cfg (counter cfg) w)), 1))"
proof -
  have z: "select_counter (counter cfg) (Unmarshal e b zero_NcPerfData) = 0"
    using assms(7) select_counter_zero [OF assms(2)] by simp
  have f: "fetchPerformanceInfo e cfg (counter cfg) w =
             (fst (fetchPerformanceInfo e cfg (counter cfg) w), Inr 0)"
    using fetch_returns [OF assms(3-6), of "counter cfg" w] z by simp
  have "snd (fetchPerformanceInfo e cfg (counter cfg) w) = Inr 0"
    by (subst f) simp
  moreover have "snd (fetchPerformanceInfo e cfg (counter cfg) w) \<noteq> Inr (- 1)"
    by (subst f) simp
  moreover have "main e cfg w =
             (if 0 <s warning cfg
              then (Printf (''OK: '' @ result_text e cfg 0 @ nl)
                      (fst (fetchPerformanceInfo e cfg (counter cfg) w)), 0)
              else (Printf (''WARNING: '' @ result_text e cfg 0 @ '' '' @ nl)
                      (fst (fetchPerformanceInfo e cfg (counter cfg) w)), 1))"
    using main_after_fetch [OF assms(1) assms(2) f]
    by (simp add: nagiosResult_0 nagiosResult_1)
  ultimately show ?thesis by simp
qed

theorem unpopulated_field_reads_zero_witness:
  "select_counter (counter (run_flags ''NumShares'' 10 20))
        (Unmarshal (run_env (serve 200 ''200 OK'' body_no_fields)) body_no_fields zero_NcPerfData)
     = select_counter (counter (run_flags ''NumShares'' 10 20)) zero_NcPerfData
   \<and> snd (fetchPerformanceInfo (run_env (serve 200 ''200 OK'' body_no_fields))
            (run_flags ''NumShares'' 10 20) (counter (run_flags ''NumShares'' 10 20)) world0) = Inr 0
   \<and> main (run_env (serve 200 ''200 OK'' body_no_fields)) (run_flags ''NumShares'' 10 20) world0
       = (\<lparr>stdout = ''OK: NumShares: 0'' @ nl, logged = [], requests = [run_request]\<rparr>, 0)"
proof -
  let ?cfg = "run_flags ''NumShares'' 10 20"
  let ?e = "run_env (serve 200 ''200 OK'' body_no_fields)"
  let ?resp = "\<lparr>StatusCode = 200, Status = ''200 OK'', HeaderPretty = ''http.Header{}'',
                Body = Inr body_no_fields\<rparr>"
  have h1: "warning ?cfg <s critical ?cfg" by (simp add: run_defs)
  have h2: "counter_found allowedCounters (counter ?cfg)"
    by (simp add: run_defs allowedCounters_def)
  have h3: "NewRequest_err ?e ''GET'' (perfURL ?cfg) = None" by (simp add: run_env_def)
  have h4: "client_Do ?e \<lparr>Method = ''GET'', URL = perfURL ?cfg,
                      basic_auth = Some (username ?cfg, password ?cfg)\<rparr> = Inr ?resp"
    by (simp add: run_env_def serve_def)
  have h5: "StatusCode ?resp \<le>s 299" by (simp add: word_sle_eq)
  have h6: "Body ?resp = Inr body_no_fields" by simp
  have h7: "select_counter (counter ?cfg) (Unmarshal ?e body_no_fields zero_NcPerfData)
              = select_counter (counter ?cfg) zero_NcPerfData"
    by (simp add: run_defs)
  have w: "fst (fetchPerformanceInfo ?e ?cfg (counter ?cfg) world0)
             = \<lparr>stdout = [], logged = [], requests = [run_request]\<rparr>"
    by (simp add: run_defs prog_defs word_sless_alt)
  have r: "result_text ?e ?cfg 0 = ''NumShares: 0''" "0 <s warning ?cfg"
    by (simp_all add: result_text_def run_defs fmt_simps word_sless_alt)
  from unpopulated_field_reads_zero [OF h1 h2 h3 h4 h5 h6 h7, of world0] w r h7
  show ?thesis by (simp add: Printf_def)
qed

text \<open>
  C9. The sentinel for an unrecognised counter is the integer \<open>-1\<close>. A validated counter
  whose decoded field is \<open>-1\<close> is therefore reported as
  \<open>UNKNOWN: Unknown value for <counter>\<close> with exit code 3, and is not compared with the
  thresholds (in the instance below \<open>-1\<close> is under the warning threshold 10).
\<close>

theorem sentinel_collides_with_minus_one:
  assumes "warning cfg <s critical cfg"
    and "counter_found allowedCounters (counter cfg)"
    and "NewRequest_err e ''GET'' (perfURL cfg) = None"
    and "client_Do e \<lparr>Method = ''GET'', URL = perfURL cfg,
                      basic_auth = Some (username cfg, password cfg)\<rparr> = Inr resp"
    and "StatusCode resp \<le>s 299"
    and "Body resp = Inr b"
    and "select_counter (counter cfg) (Unmarshal e b zero_NcPerfData) = - 1"
  shows "(\<not> counter_found allowedCounters c' \<longrightarrow> select_counter c' m = - 1)
         \<and> main e cfg w =
             (Printf (''UNKNOWN: Unknown value for '' @ counter cfg @ nl)
                (fst (fetchPerformanceInfo e cfg (counter cfg) w)), 3)"
proof -
  have s: "\<not> counter_found allowedCounters c' \<longrightarrow> select_counter c' m = - 1"
    by (simp add: counter_found_set allowedCounters_def select_counter_def)
  have f: "fetchPerformanceInfo e cfg (counter cfg) w =
             (fst (fetchPerformanceInfo e cfg (counter cfg) w), Inr (- 1))"
    using fetch_returns [OF assms(3-6), of "counter cfg" w] assms(7) by simp
  have "main e cfg w =
             (Printf (''UNKNOWN: Unknown value for '' @ counter cfg @ nl)
                (fst (fetchPerformanceInfo e cfg (counter cfg) w)), 3)"
    using main_after_fetch [OF assms(1) assms(2) f] by (simp add: nagiosResult_3)
  with s show ?thesis by simp
qed

theorem sentinel_collides_with_minus_one_witness:
  "select_counter (counter (run_flags ''FreeSpace'' 10 20))
        (Unmarshal (run_env (serve 200 ''200 OK'' body_free_minus1)) body_free_minus1 zero_NcPerfData)
     = - 1
   \<and> (- 1 :: int64) <s warning (run_flags ''FreeSpace'' 10 20)
   \<and> main (run_env (serve 200 ''200 OK'' body_free_minus1)) (run_flags ''FreeSpace'' 10 20) world0
       = (\<lparr>stdout = ''UNKNOWN: Unknown value for FreeSpace'' @ nl, logged = [],
           requests = [run_request]\<rparr>, 3)"
proof -
  let ?cfg = "run_flags ''FreeSpace'' 10 20"
  let ?e = "run_env (serve 200 ''200 OK'' body_free_minus1)"
  let ?resp = "\<lparr>StatusCode = 200, Status = ''200 OK'', HeaderPretty = ''http.Header{}'',
                Body = Inr body_free_minus1\<rparr>"
  have h1: "warning ?cfg <s critical ?cfg" by (simp add: run_defs)
  have h2: "counter_found allowedCounters (counter ?cfg)"
    by (simp add: run_defs allowedCounters_def)
  have h3: "NewRequest_err ?e ''GET'' (perfURL ?cfg) = None" by (simp add: run_env_def)
  have h4: "client_Do ?e \<lparr>Method = ''GET'', URL = perfURL ?cfg,
                      basic_auth = Some (username ?cfg, password ?cfg)\<rparr> = Inr ?resp"
    by (simp add: run_env_def serve_def)
  have h5: "StatusCode ?resp \<le>s 299" by (simp add: word_sle_eq)
  have h6: "Body ?resp = Inr body_free_minus1" by simp
  have h7: "select_counter (counter ?cfg) (Unmarshal ?e body_free_minus1 zero_NcPerfData) = - 1"
    by (simp add: run_defs select_counter_def zero_NcPerfData_def)
  have w: "fst (fetchPerformanceInfo ?e ?cfg (counter ?cfg) world0)
             = \<lparr>stdout = [], logged = [], requests = [run_request]\<rparr>"
    by (simp add: run_defs prog_defs word_sless_alt)
  have c: "counter ?cfg = ''FreeSpace''" "(- 1 :: int64) <s warning ?cfg"
    by (simp_all add: run_defs word_sless_alt)
  from sentinel_collides_with_minus_one [OF h1 h2 h3 h4 h5 h6 h7, of "''FreeSpace''" zero_NcPerfData world0] w c h7
  show ?thesis by (simp add: Printf_def)
qed

subsection \<open>The worked example\<close>

text \<open>
  C8, as the specification writes the example. The body decodes to 5 available updates, the
  thresholds are 10 and 20, and the counter is asked for as \<open>update-count\<close>: the program
  prints \<open>UNKNOWN: Unknown Counter\<close>, exits with code 3 and sends no request.
\<close>

theorem spec_example_update_count_counterexample:
  "NumUpdatesAvailable (Unmarshal (run_env (serve 200 ''200 OK'' body_updates5)) body_updates5
      zero_NcPerfData) = 5
   \<and> main (run_env (serve 200 ''200 OK'' body_updates5)) (run_flags ''update-count'' 10 20) world0
       = (\<lparr>stdout = ''UNKNOWN: Unknown Counter'' @ nl, logged = [], requests = []\<rparr>, 3)"
  by (simp add: run_defs prog_defs word_sless_alt word_sle_eq)

text \<open>
  C8, with the counter under the name the program knows. Given a response of status below
  300 whose body decodes with \<open>num_updates_available\<close> at 5, the counter
  \<open>AppUdatesAvailable\<close>, warning 10 and critical 20, and neither debug nor perfdata set,
  the program prints \<open>OK: AppUdatesAvailable: 5\<close> (the message is
  \<open><counter>: <value>\<close>) and exits with code 0.
\<close>

theorem updates_example_ok:
  assumes "counter cfg = ''AppUdatesAvailable''"
    and "warning cfg = 10" and "critical cfg = 20"
    and "\<not> debug cfg" and "\<not> perfdata cfg"
    and "NewRequest_err e ''GET'' (perfURL cfg) = None"
    and "client_Do e \<lparr>Method = ''GET'', URL = perfURL cfg,
                      basic_auth = Some (username cfg, password cfg)\<rparr> = Inr resp"
    and "StatusCode resp \<le>s 299"
    and "Body resp = Inr b"
    and "NumUpdatesAvailable (Unmarshal e b zero_NcPerfData) = 5"
  shows "stdout (fst (main e cfg w)) = stdout w @ ''OK: AppUdatesAvailable: 5'' @ nl
         \<and> snd (main e cfg w) = 0"
proof -
  have o: "warning cfg <s critical cfg" by (simp add: assms(2,3))
  have a: "counter_found allowedCounters (counter cfg)"
    by (simp add: assms(1) allowedCounters_def)
  have v: "select_counter (counter cfg) (Unmarshal e b zero_NcPerfData) = 5"
    by (simp add: select_counter_def assms(1) assms(10))
  have f: "fetchPerformanceInfo e cfg (counter cfg) w =
             (fst (fetchPerformanceInfo e cfg (counter cfg) w), Inr 5)"
    using fetch_returns [OF assms(6-9), of "counter cfg" w] v by simp
  have q: "stdout (fst (fetchPerformanceInfo e cfg (counter cfg) w)) = stdout w"
    using fetch_returns_quiet [OF assms(6-9) assms(4)] .
  have r: "result_text e cfg 5 = ''AppUdatesAvailable: 5''"
    by (simp add: result_text_def assms(1) assms(5) fmt_simps)
  have "main e cfg w =
          (Printf (''OK: AppUdatesAvailable: 5'' @ nl)
             (fst (fetchPerformanceInfo e cfg (counter cfg) w)), 0)"
    using main_after_fetch [OF o a f] by (simp add: assms(2) r nagiosResult_0)
  then show ?thesis by (simp add: Printf_def q)
qed

theorem updates_example_ok_witness:
  "counter (run_flags ''AppUdatesAvailable'' 10 20) = ''AppUdatesAvailable''
   \<and> warning (run_flags ''AppUdatesAvailable'' 10 20) = 10
   \<and> critical (run_flags ''AppUdatesAvailable'' 10 20) = 20
   \<and> NumUpdatesAvailable (Unmarshal (run_env (serve 200 ''200 OK'' body_updates5)) body_updates5
        zero_NcPerfData) = 5
   \<and> stdout (fst (main (run_env (serve 200 ''200 OK'' body_updates5))
                     (run_flags ''AppUdatesAvailable'' 10 20) world0))
       = ''OK: AppUdatesAvailable: 5'' @ nl
   \<and> snd (main (run_env (serve 200 ''200 OK'' body_updates5))
             (run_flags ''AppUdatesAvailable'' 10 20) world0) = 0"
proof -
  let ?cfg = "run_flags ''AppUdatesAvailable'' 10 20"
  let ?e = "run_env (serve 200 ''200 OK'' body_updates5)"
  let ?resp = "\<lparr>StatusCode = 200, Status = ''200 OK'', HeaderPretty = ''http.Header{}'',
                Body = Inr body_updates5\<rparr>"
  have h1: "counter ?cfg = ''AppUdatesAvailable''" by (simp add: run_defs)
  have h2: "warning ?cfg = 10" by (simp add: run_defs)
  have h3: "critical ?cfg = 20" by (simp add: run_defs)
  have h4: "\<not> debug ?cfg" by (simp add: run_defs)
  have h5: "\<not> perfdata ?cfg" by (simp add: run_defs)
  have h6: "NewRequest_err ?e ''GET'' (perfURL ?cfg) = None" by (simp add: run_env_def)
  have h7: "client_Do ?e \<lparr>Method = ''GET'', URL = perfURL ?cfg,
                      basic_auth = Some (username ?cfg, password ?cfg)\<rparr> = Inr ?resp"
    by (simp add: run_env_def serve_def)
  have h8: "StatusCode ?resp \<le>s 299" by (simp add: word_sle_eq)
  have h9: "Body ?resp = Inr body_updates5" by simp
  have h10: "NumUpdatesAvailable (Unmarshal ?e body_updates5 zero_NcPerfData) = 5"
    by (simp add: run_defs)
  from updates_example_ok [OF h1 h2 h3 h4 h5 h6 h7 h8 h9 h10, of world0] h1 h2 h3 h10
  show ?thesis by (simp add: world0_def)
qed

subsection \<open>The status line\<close>

lemma digit_not_newline: "digit n \<noteq> CHR 0x0A"
proof -
  have "digit n \<in> set ''0123456789''"
    unfolding digit_def by (rule nth_mem) simp
  then show ?thesis by auto
qed

lemma decimal_no_newline: "CHR 0x0A \<notin> set (decimal n)"
proof (induction n rule: decimal.induct)
  case (1 n)
  show ?case
  proof (cases "n < 10")
    case True
    then show ?thesis using digit_not_newline [of n] by (subst decimal.simps) auto
  next
    case False
    with 1 show ?thesis using digit_not_newline [of "n mod 10"] by (subst decimal.simps) auto
  qed
qed

lemma fmt_d_no_newline: "CHR 0x0A \<notin> set (fmt_d i)"
  by (simp add: fmt_d_def decimal_no_newline)

lemma allowed_no_newline:
  "counter_found allowedCounters c \<Longrightarrow> CHR 0x0A \<notin> set c"
  by (auto simp: counter_found_set allowedCounters_def)

lemma result_text_no_newline:
  "counter_found allowedCounters (counter cfg) \<Longrightarrow> CHR 0x0A \<notin> set (runtime e) \<Longrightarrow>
   CHR 0x0A \<notin> set (result_text e cfg v)"
  by (simp add: result_text_def Let_def fmt_d_no_newline allowed_no_newline)

lemma fetch_exit_cases:
  assumes "\<not> debug cfg"
    and "fetchPerformanceInfo e cfg c w = (w2, Inl code)"
    and "logged w2 = logged w"
  shows "\<exists>resp::response. code = 3 \<and>
           stdout w2 = stdout w @ ''UNKNOWN: '' @ (''Http request returned ''
             @ fmt_d (sint (StatusCode resp)) @ '' ('' @ StatusText e (StatusCode resp) @ '')'') @ nl"
  using assms
  by (auto simp: fetchPerformanceInfo_def Let_def debugprint_def nagiosResult_def log_Fatal_def
      Printf_def split: option.splits sum.splits if_splits)

lemma fetch_value_quiet:
  assumes "\<not> debug cfg"
    and "fetchPerformanceInfo e cfg c w = (w2, Inr v)"
  shows "stdout w2 = stdout w"
  using assms
  by (auto simp: fetchPerformanceInfo_def Let_def debugprint_def nagiosResult_def log_Fatal_def
      Printf_def split: option.splits sum.splits if_splits)

text \<open>
  C7, for every invocation. Two command lines with the debug flag unset that leave standard
  output empty: against a host that refuses the connection, \<open>client.Do\<close> fails and the
  program ends in \<open>log.Fatal\<close> with exit code 1; and \<open>-hostname cloud.example.org -verbose\<close>,
  where \<open>-verbose\<close> is no flag of this program, ends in \<open>flag.Parse\<close> with exit code 2.
\<close>

theorem no_status_line_counterexample:
  "flag_Parse default_flags (run_args ''FreeSpace'' 10 20) = Inr (run_flags ''FreeSpace'' 10 20)
   \<and> \<not> debug (run_flags ''FreeSpace'' 10 20)
   \<and> invocation (run_env unreachable) (run_args ''FreeSpace'' 10 20) world0
       = (\<lparr>stdout = [], logged = [''dial tcp: connection refused''], requests = [run_request]\<rparr>, 1)
   \<and> invocation (run_env (serve 200 ''200 OK'' body_free50))
        [Given (Hostname ''cloud.example.org''), Invalid] world0
       = (\<lparr>stdout = [], logged = [], requests = []\<rparr>, 2)"
  by (simp add: invocation_def run_args_def run_defs prog_defs word_sless_alt word_sle_eq)

text \<open>
  The status line of a run of \<open>main\<close> on a parsed configuration that hands nothing to
  \<open>log.Fatal\<close>.
\<close>

lemma main_one_status_line:
  assumes "\<not> debug cfg"
    and "logged (fst (main e cfg w)) = logged w"
    and "\<forall>c. CHR 0x0A \<notin> set (StatusText e c)"
    and "CHR 0x0A \<notin> set (runtime e)"
  shows "\<exists>label msg.
           (label, snd (main e cfg w)) \<in> {(''OK'', 0), (''WARNING'', 1), (''CRITICAL'', 2), (''UNKNOWN'', 3)}
           \<and> stdout (fst (main e cfg w)) = stdout w @ label @ '': '' @ msg @ nl
           \<and> CHR 0x0A \<notin> set msg"
proof (cases "critical cfg \<le>s warning cfg")
  case True
  show ?thesis
    by (rule exI [of _ "''UNKNOWN''"], rule exI [of _ "''Warning must be smaller than Critical''"])
       (simp add: main_rejects_order [OF True] Printf_def)
next
  case False
  then have ord: "warning cfg <s critical cfg" by (simp add: word_sless_alt word_sle_eq)
  show ?thesis
  proof (cases "counter_found allowedCounters (counter cfg)")
    case False
    show ?thesis
      by (rule exI [of _ "''UNKNOWN''"], rule exI [of _ "''Unknown Counter''"])
         (simp add: main_rejects_counter [OF ord False] Printf_def)
  next
    case True
    obtain w2 r where f: "fetchPerformanceInfo e cfg (counter cfg) w = (w2, r)"
      by (cases "fetchPerformanceInfo e cfg (counter cfg) w") blast
    show ?thesis
    proof (cases r)
      case (Inl code)
      with f have f': "fetchPerformanceInfo e cfg (counter cfg) w = (w2, Inl code)" by simp
      have m: "main e cfg w = (w2, code)" by (rule main_after_exit [OF ord True f'])
      with assms(2) have "logged w2 = logged w" by simp
      from fetch_exit_cases [OF assms(1) f' this] obtain resp :: response where
        c: "code = 3" and
        s: "stdout w2 = stdout w @ ''UNKNOWN: '' @ (''Http request returned ''
             @ fmt_d (sint (StatusCode resp)) @ '' ('' @ StatusText e (StatusCode resp) @ '')'') @ nl"
        by blast
      show ?thesis
        by (rule exI [of _ "''UNKNOWN''"],
            rule exI [of _ "''Http request returned '' @ fmt_d (sint (StatusCode resp))
                             @ '' ('' @ StatusText e (StatusCode resp) @ '')''"])
           (simp add: m c s fmt_d_no_newline assms(3))
    next
      case (Inr v)
      with f have f': "fetchPerformanceInfo e cfg (counter cfg) w = (w2, Inr v)" by simp
      note m = main_after_fetch [OF ord True f']
      have q: "stdout w2 = stdout w" by (rule fetch_value_quiet [OF assms(1) f'])
      have rn: "CHR 0x0A \<notin> set (result_text e cfg v)"
        by (rule result_text_no_newline [OF True assms(4)])
      consider "v = - 1" | "v \<noteq> - 1" "v <s warning cfg" | "v \<noteq> - 1" "\<not> v <s warning cfg"
        by blast
      then show ?thesis
      proof cases
        case 1
        show ?thesis
          by (rule exI [of _ "''UNKNOWN''"], rule exI [of _ "''Unknown value for '' @ counter cfg"])
             (simp add: m 1 nagiosResult_3 Printf_def q allowed_no_newline [OF True])
      next
        case 2
        show ?thesis
          by (rule exI [of _ "''OK''"], rule exI [of _ "result_text e cfg v"])
             (simp add: m 2 nagiosResult_0 Printf_def q rn)
      next
        case 3
        show ?thesis
          by (rule exI [of _ "''WARNING''"], rule exI [of _ "result_text e cfg v @ '' ''"])
             (simp add: m 3 nagiosResult_1 Printf_def q rn)
      qed
    qed
  qed
qed

text \<open>
  C7, for the invocations that end neither in \<open>flag.Parse\<close> nor in \<open>log.Fatal\<close>. With a
  command line that \<open>flag.Parse\<close> accepts and that leaves the debug flag unset, and reason
  phrases and the rendered duration free of line breaks, every invocation that hands nothing
  to \<open>log.Fatal\<close> adds exactly one line to standard output: a severity label among OK,
  WARNING, CRITICAL, UNKNOWN, a colon and a space, a message without line break, and the line
  break; the exit code is the one of the label, 0, 1, 2 or 3.
\<close>

theorem one_status_line:
  assumes "flag_Parse default_flags args = Inr cfg"
    and "\<not> debug cfg"
    and "logged (fst (invocation e args w)) = logged w"
    and "\<forall>c. CHR 0x0A \<notin> set (StatusText e c)"
    and "CHR 0x0A \<notin> set (runtime e)"
  shows "\<exists>label msg.
           (label, snd (invocation e args w))
              \<in> {(''OK'', 0), (''WARNING'', 1), (''CRITICAL'', 2), (''UNKNOWN'', 3)}
           \<and> stdout (fst (invocation e args w)) = stdout w @ label @ '': '' @ msg @ nl
           \<and> CHR 0x0A \<notin> set msg"
proof -
  have i: "invocation e args w = main e cfg w" by (rule invocation_parsed [OF assms(1)])
  from assms(3) have l: "logged (fst (main e cfg w)) = logged w" by (simp add: i)
  show ?thesis
    unfolding i by (rule main_one_status_line [OF assms(2) l assms(4) assms(5)])
qed

theorem one_status_line_witness:
  "flag_Parse default_flags (run_args ''FreeSpace'' 10 20) = Inr (run_flags ''FreeSpace'' 10 20)
   \<and> \<not> debug (run_flags ''FreeSpace'' 10 20)
   \<and> logged (fst (invocation (run_env (serve 200 ''200 OK'' body_free50))
                     (run_args ''FreeSpace'' 10 20) world0))
       = logged world0
   \<and> (\<forall>c. CHR 0x0A \<notin> set (StatusText (run_env (serve 200 ''200 OK'' body_free50)) c))
   \<and> CHR 0x0A \<notin> set (runtime (run_env (serve 200 ''200 OK'' body_free50)))
   \<and> invocation (run_env (serve 200 ''200 OK'' body_free50)) (run_args ''FreeSpace'' 10 20) world0
       = (\<lparr>stdout = ''WARNING: FreeSpace: 50 '' @ nl, logged = [], requests = [run_request]\<rparr>, 1)
   \<and> (\<exists>label msg.
         (label, snd (invocation (run_env (serve 200 ''200 OK'' body_free50))
                        (run_args ''FreeSpace'' 10 20) world0))
            \<in> {(''OK'', 0), (''WARNING'', 1), (''CRITICAL'', 2), (''UNKNOWN'', 3)}
         \<and> stdout (fst (invocation (run_env (serve 200 ''200 OK'' body_free50))
                           (run_args ''FreeSpace'' 10 20) world0))
             = stdout world0 @ label @ '': '' @ msg @ nl
         \<and> CHR 0x0A \<notin> set msg)"
proof -
  let ?args = "run_args ''FreeSpace'' 10 20"
  let ?cfg = "run_flags ''FreeSpace'' 10 20"
  let ?e = "run_env (serve 200 ''200 OK'' body_free50)"
  have h0: "flag_Parse default_flags ?args = Inr ?cfg"
    by (simp add: run_args_def run_flags_def parse_flags_def)
  have h1: "\<not> debug ?cfg" by (simp add: run_defs)
  have m: "invocation ?e ?args world0
             = (\<lparr>stdout = ''WARNING: FreeSpace: 50 '' @ nl, logged = [], requests = [run_request]\<rparr>, 1)"
    unfolding invocation_parsed [OF h0]
    by (simp add: run_defs prog_defs fmt_simps word_sless_alt word_sle_eq)
  have h2: "logged (fst (invocation ?e ?args world0)) = logged world0"
    by (simp add: m) (simp add: world0_def)
  have h3: "\<forall>c. CHR 0x0A \<notin> set (StatusText ?e c)"
    by (simp add: run_env_def run_StatusText_def)
  have h4: "CHR 0x0A \<notin> set (runtime ?e)" by (simp add: run_env_def)
  from one_status_line [OF h0 h1 h2 h3 h4] h0 h1 h2 h3 h4 m
  show ?thesis by blast
qed

end
